theory Spec2Isabelle
  imports Complex_Main "HOL-Library.Product_Lexorder" "HOL-Library.Sublist"
    "HOL-Library.Monad_Syntax"
begin

section \<open>The LATAM payment-failure dashboard callback (app.py)\<close>

text \<open>
  The program is one Dash callback, \<^verbatim>\<open>update_graph\<close>, over three pandas frames loaded
  at module level. The embedding follows it statement by statement.

  Modelling decisions:
  \<^item> A calendar date is a triple (year, month, day) under the lexicographic order, which is
    the chronological order pandas uses when it compares a \<^verbatim>\<open>datetime64\<close> column with an
    ISO date string. The date strings of the callback are taken as already parsed.
  \<^item> A frame is the list of its rows, in index order; a row is a record of its columns.
  \<^item> A boolean Series is a \<open>bool list\<close> aligned with the rows.
  \<^item> The \<^verbatim>\<open>float\<close> columns are modelled as \<open>real\<close>: arithmetic is exact, the rounding of
    IEEE doubles and the special values NaN and infinity are outside the model.
  \<^item> A Python exception is a value \<open>Inl e\<close> of the result type.
\<close>

subsection \<open>Data model\<close>

type_synonym date = "int \<times> nat \<times> nat"

text \<open>Columns of \<^verbatim>\<open>latam_failure_pct.csv\<close>, \<^verbatim>\<open>latam_ml_anomaly.csv\<close> and \<^verbatim>\<open>arima_forecast.csv\<close>
  as the callback reads them (lines 9-11, 78-109).\<close>

record dated =
  date :: date

record latam_row = dated +
  failure_pct :: real

record ml_row = latam_row +
  ml_anomaly :: bool

record arima_row = dated +
  forecast :: real
  upper :: real
  lower :: real

text \<open>The module-level frames (lines 9-11), by content.\<close>

record data_store =
  latam_df :: "latam_row list"
  ml_df :: "ml_row list"
  arima_df :: "arima_row list"

datatype py_error = ZeroDivisionError

datatype pyval = Str string | Num int

text \<open>A \<^verbatim>\<open>go.Scatter\<close> trace with the keyword arguments the callback passes; an argument
  that is not passed is \<open>None\<close>.\<close>

record scatter =
  xdata :: "date list"
  ydata :: "real list"
  mode :: "string option"
  name :: "string option"
  line :: "(string \<times> pyval) list option"
  marker :: "(string \<times> pyval) list option"
  fill :: "string option"
  fillcolor :: "string option"
  showlegend :: "bool option"

record figure =
  data :: "scatter list"
  layout :: "(string \<times> string) list"

text \<open>The \<^verbatim>\<open>html.Div\<close> of the impact summary (lines 127-134), by the values its lines
  interpolate: the heading, the echoed date range, the record count, the count and share
  of high-failure days, the revenue figure and the root-cause line. The rendering of the
  numbers as text (\<^verbatim>\<open>:.1f\<close>, \<^verbatim>\<open>:,\<close>) is not modelled.\<close>

record summary =
  heading :: string
  range_start :: date
  range_end :: date
  total_records :: int
  high_failure_days :: int
  high_failure_pct :: real
  missed_revenue :: int
  root_cause :: string

subsection \<open>The pandas operations the callback uses\<close>

text \<open>\<^verbatim>\<open>df['date'] >= d\<close> and \<^verbatim>\<open>df['date'] <= d\<close>: element-wise comparisons.\<close>

definition ge_date :: "'a dated_scheme list \<Rightarrow> date \<Rightarrow> bool list" where
  "ge_date df d = map (\<lambda>r. d \<le> date r) df"

definition le_date :: "'a dated_scheme list \<Rightarrow> date \<Rightarrow> bool list" where
  "le_date df d = map (\<lambda>r. date r \<le> d) df"

text \<open>\<^verbatim>\<open>m1 & m2\<close> on boolean Series.\<close>

definition mask_and :: "bool list \<Rightarrow> bool list \<Rightarrow> bool list" where
  "mask_and m1 m2 = map2 (\<and>) m1 m2"

text \<open>\<^verbatim>\<open>df[mask]\<close>: the rows whose mask entry is true, in order. Every mask of the callback
  is computed from the frame it indexes, so the two have the same length.\<close>

definition getitem_mask :: "'r list \<Rightarrow> bool list \<Rightarrow> 'r list" where
  "getitem_mask df msk = map fst (filter snd (zip df msk))"

text \<open>\<^verbatim>\<open>df.loc[mask, 'failure_pct'] *= c\<close>: the masked rows get their \<^verbatim>\<open>failure_pct\<close>
  multiplied, the others are kept.\<close>

definition loc_imul_failure_pct :: "'a latam_row_scheme list \<Rightarrow> bool list \<Rightarrow> real
    \<Rightarrow> 'a latam_row_scheme list" where
  "loc_imul_failure_pct df msk c =
     map2 (\<lambda>r m. if m then r\<lparr>failure_pct := failure_pct r * c\<rparr> else r) df msk"

text \<open>Python's \<^verbatim>\<open>a / b\<close> on integers.\<close>

definition py_truediv :: "int \<Rightarrow> int \<Rightarrow> py_error + real" where
  "py_truediv a b =
     (if b = 0 then Inl ZeroDivisionError else Inr (real_of_int a / real_of_int b))"

subsection \<open>The steps of \<^verbatim>\<open>update_graph\<close>\<close>

text \<open>Line 78 (and the date part of lines 93 and 100): the slice of a frame between
  \<^verbatim>\<open>start_date\<close> and \<^verbatim>\<open>end_date\<close>.\<close>

definition range_filter :: "'a dated_scheme list \<Rightarrow> date \<Rightarrow> date \<Rightarrow> 'a dated_scheme list" where
  "range_filter df start_date end_date =
     getitem_mask df (mask_and (ge_date df start_date) (le_date df end_date))"

text \<open>Lines 81-83: the simulated spike. \<^verbatim>\<open>event_toggle\<close> is the list of ticked
  checklist values; the spike is enabled when it holds \<^verbatim>\<open>'bf'\<close>.\<close>

definition black_friday_spike :: "string list \<Rightarrow> latam_row list \<Rightarrow> latam_row list" where
  "black_friday_spike event_toggle df =
     (if ''bf'' \<in> set event_toggle
      then let spike_mask = mask_and (ge_date df (2025, 1, 25)) (le_date df (2025, 1, 28))
           in loc_imul_failure_pct df spike_mask 2.5
      else df)"

text \<open>Line 86 and \<^verbatim>\<open>fig.add_trace\<close>: a figure starts without traces and each call
  appends one.\<close>

definition go_Figure :: figure where
  "go_Figure = \<lparr>data = [], layout = []\<rparr>"

definition add_trace :: "figure \<Rightarrow> scatter \<Rightarrow> figure" where
  "add_trace fig t = fig\<lparr>data := data fig @ [t]\<rparr>"

text \<open>Lines 87-90: the trace of the observed series.\<close>

definition observed_trace :: "latam_row list \<Rightarrow> scatter" where
  "observed_trace df =
     \<lparr>xdata = map date df, ydata = map failure_pct df,
      mode = Some ''lines+markers'', name = Some ''Failure %'',
      line = Some [(''color'', Str ''gray'')], marker = None,
      fill = None, fillcolor = None, showlegend = None\<rparr>"

text \<open>Lines 92-97: the anomaly markers. The mask is
  \<^verbatim>\<open>(ml_df['ml_anomaly']) & (ml_df['date'] >= start_date) & (ml_df['date'] <= end_date)\<close>,
  and \<^verbatim>\<open>&\<close> associates to the left.\<close>

definition ml_anomalies_of :: "ml_row list \<Rightarrow> date \<Rightarrow> date \<Rightarrow> ml_row list" where
  "ml_anomalies_of mldf start_date end_date =
     getitem_mask mldf
       (mask_and (mask_and (map ml_anomaly mldf) (ge_date mldf start_date))
          (le_date mldf end_date))"

definition anomaly_trace :: "ml_row list \<Rightarrow> scatter" where
  "anomaly_trace ml_anomalies =
     \<lparr>xdata = map date ml_anomalies, ydata = map failure_pct ml_anomalies,
      mode = Some ''markers'', name = Some ''ML Anomalies'',
      line = None,
      marker = Some [(''color'', Str ''red''), (''size'', Num 10), (''symbol'', Str ''x'')],
      fill = None, fillcolor = None, showlegend = None\<rparr>"

definition add_ml_anomalies :: "string \<Rightarrow> ml_row list \<Rightarrow> date \<Rightarrow> date \<Rightarrow> figure \<Rightarrow> figure" where
  "add_ml_anomalies anomaly_method mldf start_date end_date fig =
     (if anomaly_method = ''ml''
      then add_trace fig (anomaly_trace (ml_anomalies_of mldf start_date end_date))
      else fig)"

text \<open>Lines 99-111: the forecast line, then the upper bound, then the lower bound filled
  up to the trace before it (\<^verbatim>\<open>fill='tonexty'\<close>).\<close>

definition forecast_trace :: "arima_row list \<Rightarrow> scatter" where
  "forecast_trace arima_overlay =
     \<lparr>xdata = map date arima_overlay, ydata = map forecast arima_overlay,
      mode = Some ''lines'', name = Some ''ARIMA Forecast'',
      line = Some [(''color'', Str ''green''), (''dash'', Str ''dash'')], marker = None,
      fill = None, fillcolor = None, showlegend = None\<rparr>"

definition upper_trace :: "arima_row list \<Rightarrow> scatter" where
  "upper_trace arima_overlay =
     \<lparr>xdata = map date arima_overlay, ydata = map upper arima_overlay,
      mode = None, name = None,
      line = Some [(''width'', Num 0)], marker = None,
      fill = None, fillcolor = None, showlegend = Some False\<rparr>"

definition lower_trace :: "arima_row list \<Rightarrow> scatter" where
  "lower_trace arima_overlay =
     \<lparr>xdata = map date arima_overlay, ydata = map lower arima_overlay,
      mode = None, name = Some ''Forecast CI'',
      line = Some [(''width'', Num 0)], marker = None,
      fill = Some ''tonexty'', fillcolor = Some ''rgba(0,200,0,0.1)'',
      showlegend = Some True\<rparr>"

definition add_arima_overlay :: "string \<Rightarrow> arima_row list \<Rightarrow> date \<Rightarrow> date \<Rightarrow> figure \<Rightarrow> figure" where
  "add_arima_overlay forecast_choice arimadf start_date end_date fig =
     (if forecast_choice = ''arima''
      then let arima_overlay = range_filter arimadf start_date end_date;
               fig = add_trace fig (forecast_trace arima_overlay);
               fig = add_trace fig (upper_trace arima_overlay);
               fig = add_trace fig (lower_trace arima_overlay)
           in fig
      else fig)"

text \<open>Lines 113-119. The title starts with the chart emoji U+1F4C8, here as its UTF-8
  bytes.\<close>

definition update_layout :: "figure \<Rightarrow> figure" where
  "update_layout fig = fig\<lparr>layout :=
     [(''title'', [CHR 0xF0, CHR 0x9F, CHR 0x93, CHR 0x88]
                   @ '' LATAM Payment Failures with Forecast & Anomalies''),
      (''xaxis_title'', ''Date''),
      (''yaxis_title'', ''Failure %''),
      (''template'', ''plotly_white''),
      (''hovermode'', ''x unified'')]\<rparr>"

text \<open>Lines 122-134: the impact summary of the sliced (and possibly spiked) series. The
  bullet U+2022 and the emoji U+1F4CA are written as their UTF-8 bytes.\<close>

definition bullet :: string where
  "bullet = [CHR 0xE2, CHR 0x80, CHR 0xA2]"

definition root_cause_injected :: string where
  "root_cause_injected =
     bullet @ '' Root cause: Deployment A41 + Gateway v3-latam-02 (injected)''"

definition root_cause_spike :: string where
  "root_cause_spike = bullet @ '' Spike simulated due to Black Friday''"

definition impact_summary :: "latam_row list \<Rightarrow> string list \<Rightarrow> date \<Rightarrow> date
    \<Rightarrow> py_error + summary" where
  "impact_summary df event_toggle start_date end_date =
     (let failure_days = getitem_mask df (map (\<lambda>r. failure_pct r > 3) df);
          user_count = int (length df);
          fail_count = int (length failure_days)
      in case (if user_count > 0
               then map_sum id (\<lambda>q. q * 100) (py_truediv fail_count user_count)
               else Inr 0) of
           Inl e \<Rightarrow> Inl e
         | Inr fail_pct \<Rightarrow> Inr
             \<lparr>heading = [CHR 0xF0, CHR 0x9F, CHR 0x93, CHR 0x8A]
                          @ '' User & Business Impact Summary (Simulated):'',
              range_start = start_date,
              range_end = end_date,
              total_records = user_count,
              high_failure_days = fail_count,
              high_failure_pct = fail_pct,
              missed_revenue = fail_count * 5700,
              root_cause = (if ''bf'' \<notin> set event_toggle then root_cause_injected
                            else root_cause_spike)\<rparr>)"

text \<open>The callback (lines 75-136), on the contents of the three frames. The copy of
  line 77 has the content of \<^verbatim>\<open>latam_df\<close>; the object store behind it is modelled
  further below.\<close>

definition update_graph :: "data_store \<Rightarrow> string \<Rightarrow> string \<Rightarrow> string list \<Rightarrow> date \<Rightarrow> date
    \<Rightarrow> py_error + figure \<times> summary" where
  "update_graph store forecast_choice anomaly_method event_toggle start_date end_date =
     (let df = latam_df store;
          df = range_filter df start_date end_date;
          df = black_friday_spike event_toggle df;
          fig = go_Figure;
          fig = add_trace fig (observed_trace df);
          fig = add_ml_anomalies anomaly_method (ml_df store) start_date end_date fig;
          fig = add_arima_overlay forecast_choice (arima_df store) start_date end_date fig;
          fig = update_layout fig
      in case impact_summary df event_toggle start_date end_date of
           Inl e \<Rightarrow> Inl e
         | Inr summary \<Rightarrow> Inr (fig, summary))"

subsection \<open>The callback on an object store\<close>

text \<open>
  Frames are mutable objects and lines 77-83 create and update them: \<^verbatim>\<open>latam_df.copy()\<close>
  and \<^verbatim>\<open>df[...]\<close> each return a new frame, \<^verbatim>\<open>df.loc[...] *= 2.5\<close> overwrites the
  frame that \<^verbatim>\<open>df\<close> names. To say which objects a call changes, the same statements are
  run on a store of frames: an object is an address, a new object takes the next free
  address \<open>next_addr\<close>, and the three module-level names hold the addresses of the loaded
  frames. Reading a name that holds no frame of the expected kind gives \<open>None\<close>.
\<close>

type_synonym addr = nat

datatype frame =
    LatamFrame "latam_row list"
  | MlFrame "ml_row list"
  | ArimaFrame "arima_row list"

record py_store =
  objs :: "addr \<Rightarrow> frame option"
  next_addr :: addr
  latam_ref :: addr
  ml_ref :: addr
  arima_ref :: addr

definition new_frame :: "frame \<Rightarrow> py_store \<Rightarrow> addr \<times> py_store" where
  "new_frame f s =
     (next_addr s, s\<lparr>objs := (objs s)(next_addr s \<mapsto> f), next_addr := Suc (next_addr s)\<rparr>)"

definition latam_rows :: "py_store \<Rightarrow> addr \<Rightarrow> latam_row list option" where
  "latam_rows s a = (case objs s a of Some (LatamFrame rows) \<Rightarrow> Some rows | _ \<Rightarrow> None)"

definition ml_rows :: "py_store \<Rightarrow> addr \<Rightarrow> ml_row list option" where
  "ml_rows s a = (case objs s a of Some (MlFrame rows) \<Rightarrow> Some rows | _ \<Rightarrow> None)"

definition arima_rows :: "py_store \<Rightarrow> addr \<Rightarrow> arima_row list option" where
  "arima_rows s a = (case objs s a of Some (ArimaFrame rows) \<Rightarrow> Some rows | _ \<Rightarrow> None)"

text \<open>\<^verbatim>\<open>frame.copy()\<close>: a new object with the same rows.\<close>

definition copy_latam :: "addr \<Rightarrow> py_store \<Rightarrow> (addr \<times> py_store) option" where
  "copy_latam a s = do {
     rows \<leftarrow> latam_rows s a;
     Some (new_frame (LatamFrame rows) s)
   }"

text \<open>\<^verbatim>\<open>frame[mask]\<close>, the mask computed from the frame's rows: a new object.\<close>

definition getitem_latam :: "addr \<Rightarrow> (latam_row list \<Rightarrow> bool list) \<Rightarrow> py_store
    \<Rightarrow> (addr \<times> py_store) option" where
  "getitem_latam a mk s = do {
     rows \<leftarrow> latam_rows s a;
     Some (new_frame (LatamFrame (getitem_mask rows (mk rows))) s)
   }"

text \<open>\<^verbatim>\<open>frame.loc[mask, 'failure_pct'] *= c\<close>: the object at the address is overwritten.\<close>

definition loc_imul_inplace :: "addr \<Rightarrow> (latam_row list \<Rightarrow> bool list) \<Rightarrow> real \<Rightarrow> py_store
    \<Rightarrow> py_store option" where
  "loc_imul_inplace a mk c s = do {
     rows \<leftarrow> latam_rows s a;
     Some (s\<lparr>objs := (objs s)(a \<mapsto> LatamFrame (loc_imul_failure_pct rows (mk rows) c))\<rparr>)
   }"

text \<open>The callback with lines 77-83 on the store. The later statements only read:
  \<^verbatim>\<open>df\<close>, \<^verbatim>\<open>ml_df\<close> and \<^verbatim>\<open>arima_df\<close> are looked up in the store and the figure and the
  summary are built from their rows as above (the frames \<^verbatim>\<open>ml_anomalies\<close>,
  \<^verbatim>\<open>arima_overlay\<close> and \<^verbatim>\<open>failure_days\<close> are new objects that nothing writes to).\<close>

definition update_graph_st :: "string \<Rightarrow> string \<Rightarrow> string list \<Rightarrow> date \<Rightarrow> date \<Rightarrow> py_store
    \<Rightarrow> ((py_error + figure \<times> summary) \<times> py_store) option" where
  "update_graph_st forecast_choice anomaly_method event_toggle start_date end_date s = do {
     (df, s) \<leftarrow> copy_latam (latam_ref s) s;
     (df, s) \<leftarrow> getitem_latam df
        (\<lambda>rows. mask_and (ge_date rows start_date) (le_date rows end_date)) s;
     s \<leftarrow> (if ''bf'' \<in> set event_toggle
          then loc_imul_inplace df
                 (\<lambda>rows. mask_and (ge_date rows (2025, 1, 25)) (le_date rows (2025, 1, 28)))
                 2.5 s
          else Some s);
     df_rows \<leftarrow> latam_rows s df;
     ml_df_rows \<leftarrow> ml_rows s (ml_ref s);
     arima_df_rows \<leftarrow> arima_rows s (arima_ref s);
     let fig = go_Figure;
         fig = add_trace fig (observed_trace df_rows);
         fig = add_ml_anomalies anomaly_method ml_df_rows start_date end_date fig;
         fig = add_arima_overlay forecast_choice arima_df_rows start_date end_date fig;
         fig = update_layout fig
     in Some (case impact_summary df_rows event_toggle start_date end_date of
                Inl e \<Rightarrow> Inl e
              | Inr summary \<Rightarrow> Inr (fig, summary),
              s)
   }"

text \<open>The store holds the three loaded datasets under the module-level names, each an
  object allocated before \<open>next_addr\<close>.\<close>

definition loaded :: "py_store \<Rightarrow> data_store \<Rightarrow> bool" where
  "loaded s store \<longleftrightarrow>
     latam_rows s (latam_ref s) = Some (latam_df store)
     \<and> ml_rows s (ml_ref s) = Some (ml_df store)
     \<and> arima_rows s (arima_ref s) = Some (arima_df store)
     \<and> latam_ref s < next_addr s \<and> ml_ref s < next_addr s \<and> arima_ref s < next_addr s"

subsection \<open>Facts about the pandas operations\<close>

lemma getitem_mask_map:
  "getitem_mask df (map P df) = filter P df"
  by (induction df) (simp_all add: getitem_mask_def)

lemma mask_and_map:
  "mask_and (map P df) (map Q df) = map (\<lambda>r. P r \<and> Q r) df"
  by (induction df) (simp_all add: mask_and_def)

lemma range_filter_eq_filter:
  "range_filter df start_date end_date =
     filter (\<lambda>r. start_date \<le> date r \<and> date r \<le> end_date) df"
  by (simp add: range_filter_def ge_date_def le_date_def mask_and_map getitem_mask_map)

lemma loc_imul_map:
  "loc_imul_failure_pct df (map P df) c
     = map (\<lambda>r. if P r then r\<lparr>failure_pct := failure_pct r * c\<rparr> else r) df"
  by (induction df) (simp_all add: loc_imul_failure_pct_def)

lemma black_friday_spike_map:
  "black_friday_spike event_toggle df =
     (if ''bf'' \<in> set event_toggle
      then map (\<lambda>r. if (2025, 1, 25) \<le> date r \<and> date r \<le> (2025, 1, 28)
                     then r\<lparr>failure_pct := failure_pct r * 2.5\<rparr> else r) df
      else df)"
  by (simp add: black_friday_spike_def ge_date_def le_date_def mask_and_map loc_imul_map)

lemma ml_anomalies_of_eq_filter:
  "ml_anomalies_of mldf start_date end_date =
     filter (\<lambda>r. ml_anomaly r \<and> start_date \<le> date r \<and> date r \<le> end_date) mldf"
  by (simp add: ml_anomalies_of_def ge_date_def le_date_def mask_and_map getitem_mask_map
      conj_assoc)

lemma impact_summary_eq:
  "impact_summary df event_toggle start_date end_date =
     Inr \<lparr>heading = [CHR 0xF0, CHR 0x9F, CHR 0x93, CHR 0x8A]
                      @ '' User & Business Impact Summary (Simulated):'',
          range_start = start_date,
          range_end = end_date,
          total_records = int (length df),
          high_failure_days = int (length (filter (\<lambda>r. failure_pct r > 3) df)),
          high_failure_pct =
            (if df = [] then 0
             else real (length (filter (\<lambda>r. failure_pct r > 3) df)) / real (length df) * 100),
          missed_revenue = int (length (filter (\<lambda>r. failure_pct r > 3) df)) * 5700,
          root_cause = (if ''bf'' \<in> set event_toggle then root_cause_spike
                        else root_cause_injected)\<rparr>"
proof (cases "df = []")
  case True
  then show ?thesis
    by (simp add: impact_summary_def getitem_mask_def)
next
  case False
  then show ?thesis
    by (simp add: impact_summary_def getitem_mask_map py_truediv_def Let_def)
qed

lemma update_graph_eq:
  "update_graph store forecast_choice anomaly_method event_toggle start_date end_date =
     (case impact_summary
             (black_friday_spike event_toggle (range_filter (latam_df store) start_date end_date))
             event_toggle start_date end_date of
        Inl e \<Rightarrow> Inl e
      | Inr sm \<Rightarrow> Inr
         (\<lparr>data =
             [observed_trace (black_friday_spike event_toggle
                (range_filter (latam_df store) start_date end_date))]
             @ (if anomaly_method = ''ml''
                then [anomaly_trace (ml_anomalies_of (ml_df store) start_date end_date)] else [])
             @ (if forecast_choice = ''arima''
                then [forecast_trace (range_filter (arima_df store) start_date end_date),
                      upper_trace (range_filter (arima_df store) start_date end_date),
                      lower_trace (range_filter (arima_df store) start_date end_date)] else []),
           layout = layout (update_layout go_Figure)\<rparr>, sm))"
  by (simp add: update_graph_def Let_def add_trace_def add_ml_anomalies_def
      add_arima_overlay_def go_Figure_def update_layout_def split: sum.splits)


lemma update_graph_Inr:
  "\<exists>sm. update_graph store forecast_choice anomaly_method event_toggle start_date end_date =
     Inr (\<lparr>data =
             [observed_trace (black_friday_spike event_toggle
                (range_filter (latam_df store) start_date end_date))]
             @ (if anomaly_method = ''ml''
                then [anomaly_trace (ml_anomalies_of (ml_df store) start_date end_date)] else [])
             @ (if forecast_choice = ''arima''
                then [forecast_trace (range_filter (arima_df store) start_date end_date),
                      upper_trace (range_filter (arima_df store) start_date end_date),
                      lower_trace (range_filter (arima_df store) start_date end_date)] else []),
           layout = layout (update_layout go_Figure)\<rparr>, sm)
     \<and> impact_summary
          (black_friday_spike event_toggle (range_filter (latam_df store) start_date end_date))
          event_toggle start_date end_date = Inr sm"
  by (simp add: update_graph_eq impact_summary_eq)

lemma trace_names:
  "name (observed_trace df) = Some ''Failure %''"
  "name (anomaly_trace ml) = Some ''ML Anomalies''"
  "name (forecast_trace ov) = Some ''ARIMA Forecast''"
  "name (upper_trace ov) = None"
  "name (lower_trace ov) = Some ''Forecast CI''"
  by (simp_all add: observed_trace_def anomaly_trace_def forecast_trace_def upper_trace_def
      lower_trace_def)

lemmas callback_defs =
  update_graph_def range_filter_def ge_date_def le_date_def mask_and_def getitem_mask_def
  loc_imul_failure_pct_def black_friday_spike_def go_Figure_def add_trace_def
  observed_trace_def ml_anomalies_of_def anomaly_trace_def add_ml_anomalies_def
  forecast_trace_def upper_trace_def lower_trace_def add_arima_overlay_def
  update_layout_def impact_summary_def py_truediv_def

subsection \<open>The callback on the object store computes the callback on the contents\<close>

lemma update_graph_st_loaded:
  assumes "loaded s store"
  shows "\<exists>s'. update_graph_st forecast_choice anomaly_method event_toggle start_date end_date s
              = Some (update_graph store forecast_choice anomaly_method event_toggle
                        start_date end_date, s')
            \<and> loaded s' store
            \<and> (\<forall>a < next_addr s. objs s' a = objs s a)
            \<and> latam_ref s' = latam_ref s \<and> ml_ref s' = ml_ref s \<and> arima_ref s' = arima_ref s
            \<and> next_addr s \<le> next_addr s'"
proof -
  from assms obtain
    l: "objs s (latam_ref s) = Some (LatamFrame (latam_df store))" and
    m: "objs s (ml_ref s) = Some (MlFrame (ml_df store))" and
    a: "objs s (arima_ref s) = Some (ArimaFrame (arima_df store))" and
    lt: "latam_ref s < next_addr s" "ml_ref s < next_addr s" "arima_ref s < next_addr s"
    by (auto simp add: loaded_def latam_rows_def ml_rows_def arima_rows_def
        split: option.splits frame.splits)
  show ?thesis
    using l m a lt
    by (simp add: update_graph_st_def update_graph_eq impact_summary_eq copy_latam_def
        getitem_latam_def loc_imul_inplace_def new_frame_def latam_rows_def ml_rows_def
        arima_rows_def loaded_def black_friday_spike_def range_filter_def Let_def
        add_trace_def add_ml_anomalies_def add_arima_overlay_def go_Figure_def
        update_layout_def)
qed

section \<open>Range filter\<close>

text \<open>
  C3. For every dated series and all bounds, the slice is exactly the rows whose date
  \<open>d\<close> satisfies \<open>start_date \<le> d \<le> end_date\<close>, in their original order (it is the
  \<open>filter\<close> of the series, hence a subsequence of it). When \<open>start_date > end_date\<close>
  the slice is empty. The operation has no failing branch: an inverted range is an
  ordinary input.
\<close>

theorem range_filter_exact:
  fixes df :: "'a dated_scheme list"
  shows "range_filter df start_date end_date
           = filter (\<lambda>r. start_date \<le> date r \<and> date r \<le> end_date) df
       \<and> subseq (range_filter df start_date end_date) df
       \<and> (end_date < start_date \<longrightarrow> range_filter df start_date end_date = [])"
proof -
  have inverted: "range_filter df start_date end_date = []" if "end_date < start_date"
  proof -
    have "\<not> (start_date \<le> date r \<and> date r \<le> end_date)" for r :: "'a dated_scheme"
      using that by auto
    then show ?thesis
      by (simp add: range_filter_eq_filter)
  qed
  show ?thesis
    using inverted by (simp add: range_filter_eq_filter)
qed

theorem range_filter_exact_witness:
  "(2025, 1, 10) < ((2025, 1, 20) :: date)
   \<and> range_filter [\<lparr>date = (2025, 1, 15), failure_pct = 2\<rparr>] (2025, 1, 20) (2025, 1, 10) = []
   \<and> range_filter [\<lparr>date = (2025, 1, 9), failure_pct = 1\<rparr>,
                   \<lparr>date = (2025, 1, 10), failure_pct = 2\<rparr>,
                   \<lparr>date = (2025, 1, 20), failure_pct = 3\<rparr>,
                   \<lparr>date = (2025, 1, 21), failure_pct = 4\<rparr>] (2025, 1, 10) (2025, 1, 20)
       = [\<lparr>date = (2025, 1, 10), failure_pct = 2\<rparr>, \<lparr>date = (2025, 1, 20), failure_pct = 3\<rparr>]"
  using range_filter_exact [of "[\<lparr>date = (2025, 1, 15), failure_pct = 2\<rparr>]"
      "(2025, 1, 20)" "(2025, 1, 10)"]
  by (simp add: range_filter_def ge_date_def le_date_def mask_and_def getitem_mask_def)

section \<open>Spike simulator\<close>

text \<open>
  C1. For every sliced observed series: when the spike is enabled (\<^verbatim>\<open>'bf'\<close> is ticked), the
  output has the same rows in the same positions, every row dated within 2025-01-25 ..
  2025-01-28 (bounds included) has its \<^verbatim>\<open>failure_pct\<close> multiplied by 2.5 and keeps its
  date, and every row outside the window is unchanged; when the spike is disabled the
  output is the input.
\<close>

theorem black_friday_spike_pointwise:
  "(''bf'' \<in> set event_toggle \<longrightarrow>
      length (black_friday_spike event_toggle df) = length df
      \<and> (\<forall>i < length df.
            date (black_friday_spike event_toggle df ! i) = date (df ! i)
            \<and> ((2025, 1, 25) \<le> date (df ! i) \<and> date (df ! i) \<le> (2025, 1, 28)
                 \<longrightarrow> failure_pct (black_friday_spike event_toggle df ! i)
                       = failure_pct (df ! i) * 2.5)
            \<and> (\<not> ((2025, 1, 25) \<le> date (df ! i) \<and> date (df ! i) \<le> (2025, 1, 28))
                 \<longrightarrow> black_friday_spike event_toggle df ! i = df ! i)))
   \<and> (''bf'' \<notin> set event_toggle \<longrightarrow> black_friday_spike event_toggle df = df)"
  by (simp add: black_friday_spike_map)

theorem black_friday_spike_pointwise_witness:
  "''bf'' \<in> set [''bf'']
   \<and> black_friday_spike [''bf'']
        [\<lparr>date = (2025, 1, 24), failure_pct = 4\<rparr>, \<lparr>date = (2025, 1, 25), failure_pct = 4\<rparr>,
         \<lparr>date = (2025, 1, 28), failure_pct = 1.2\<rparr>, \<lparr>date = (2025, 1, 29), failure_pct = 4\<rparr>]
      = [\<lparr>date = (2025, 1, 24), failure_pct = 4\<rparr>, \<lparr>date = (2025, 1, 25), failure_pct = 10\<rparr>,
         \<lparr>date = (2025, 1, 28), failure_pct = 3\<rparr>, \<lparr>date = (2025, 1, 29), failure_pct = 4\<rparr>]
   \<and> ''bf'' \<notin> set []
   \<and> black_friday_spike [] [\<lparr>date = (2025, 1, 26), failure_pct = 4\<rparr>]
      = [\<lparr>date = (2025, 1, 26), failure_pct = 4\<rparr>]"
  using black_friday_spike_pointwise [of "[''bf'']"
      "[\<lparr>date = (2025, 1, 24), failure_pct = 4\<rparr>, \<lparr>date = (2025, 1, 25), failure_pct = 4\<rparr>,
        \<lparr>date = (2025, 1, 28), failure_pct = 1.2\<rparr>, \<lparr>date = (2025, 1, 29), failure_pct = 4\<rparr>]"]
  by (simp add: black_friday_spike_def ge_date_def le_date_def mask_and_def
      loc_imul_failure_pct_def)

section \<open>Impact summary\<close>

text \<open>
  C2. For every sliced (possibly spiked) observed series the summary is computed without
  error and reports \<open>n\<close> = the number of records, \<open>k\<close> = the number of records with
  \<^verbatim>\<open>failure_pct\<close> strictly above 3.0, the share \<open>k / n * 100\<close> (0 when \<open>n = 0\<close>) and the
  revenue figure \<open>k * 5700\<close>; the root-cause line is the fixed deployment/gateway text
  when the spike is disabled and the spike-simulated text when it is enabled.
\<close>

theorem impact_summary_values:
  "\<exists>sm. impact_summary df event_toggle start_date end_date = Inr sm
     \<and> total_records sm = int (length df)
     \<and> high_failure_days sm = int (length (filter (\<lambda>r. failure_pct r > 3.0) df))
     \<and> high_failure_pct sm =
         (if length df = 0 then 0
          else real_of_int (high_failure_days sm) / real_of_int (total_records sm) * 100)
     \<and> missed_revenue sm = high_failure_days sm * 5700
     \<and> (''bf'' \<notin> set event_toggle \<longrightarrow> root_cause sm = root_cause_injected)
     \<and> (''bf'' \<in> set event_toggle \<longrightarrow> root_cause sm = root_cause_spike)"
  by (simp add: impact_summary_eq)

theorem impact_summary_values_witness:
  "impact_summary
      [\<lparr>date = (2025, 1, 1), failure_pct = 3\<rparr>, \<lparr>date = (2025, 1, 2), failure_pct = 3.5\<rparr>,
       \<lparr>date = (2025, 1, 3), failure_pct = 1\<rparr>, \<lparr>date = (2025, 1, 4), failure_pct = 9\<rparr>]
      [] (2025, 1, 1) (2025, 1, 4)
    = Inr \<lparr>heading = [CHR 0xF0, CHR 0x9F, CHR 0x93, CHR 0x8A]
                      @ '' User & Business Impact Summary (Simulated):'',
           range_start = (2025, 1, 1), range_end = (2025, 1, 4),
           total_records = 4, high_failure_days = 2, high_failure_pct = 50,
           missed_revenue = 11400,
           root_cause = [CHR 0xE2, CHR 0x80, CHR 0xA2]
             @ '' Root cause: Deployment A41 + Gateway v3-latam-02 (injected)''\<rparr>
   \<and> ''bf'' \<in> set [''bf'']
   \<and> map_sum id root_cause (impact_summary [] [''bf''] (2025, 1, 1) (2025, 1, 4))
       = Inr ([CHR 0xE2, CHR 0x80, CHR 0xA2] @ '' Spike simulated due to Black Friday'')"
  using impact_summary_values [of
      "[\<lparr>date = (2025, 1, 1), failure_pct = 3\<rparr>, \<lparr>date = (2025, 1, 2), failure_pct = 3.5\<rparr>,
        \<lparr>date = (2025, 1, 3), failure_pct = 1\<rparr>, \<lparr>date = (2025, 1, 4), failure_pct = 9\<rparr>]"
      "[]" "(2025, 1, 1)" "(2025, 1, 4)"]
    impact_summary_values [of "[]" "[''bf'']" "(2025, 1, 1)" "(2025, 1, 4)"]
  by (simp add: impact_summary_def getitem_mask_def py_truediv_def root_cause_injected_def
      root_cause_spike_def bullet_def)

text \<open>
  C4. Whenever the slice of the observed series is empty (\<open>n = 0\<close>), the summary is a
  normal result, not a \<^verbatim>\<open>ZeroDivisionError\<close>: the division of line 125 is guarded by
  \<^verbatim>\<open>user_count > 0\<close>, and the summary reports zero records, zero high-failure days and a
  share of exactly 0 (hence a revenue figure of 0). This holds for the summary step on
  the empty series and for the whole callback on any selection whose slice is empty.
\<close>

theorem empty_selection_summary:
  "(\<exists>sm. impact_summary [] event_toggle start_date end_date = Inr sm
      \<and> total_records sm = 0 \<and> high_failure_days sm = 0 \<and> high_failure_pct sm = 0)
   \<and> (range_filter (latam_df store) start_date end_date = [] \<longrightarrow>
        (\<exists>fig sm. update_graph store forecast_choice anomaly_method event_toggle
                     start_date end_date = Inr (fig, sm)
           \<and> total_records sm = 0 \<and> high_failure_days sm = 0 \<and> high_failure_pct sm = 0
           \<and> missed_revenue sm = 0))"
  by (simp add: update_graph_eq impact_summary_eq black_friday_spike_map)

theorem empty_selection_summary_witness:
  "range_filter (latam_df \<lparr>latam_df = [\<lparr>date = (2025, 1, 5), failure_pct = 7\<rparr>],
                           ml_df = [], arima_df = []\<rparr>) (2025, 1, 10) (2025, 1, 3) = []
   \<and> map_sum id (\<lambda>(fig, sm). (total_records sm, high_failure_days sm, high_failure_pct sm,
                               missed_revenue sm))
        (update_graph \<lparr>latam_df = [\<lparr>date = (2025, 1, 5), failure_pct = 7\<rparr>],
                        ml_df = [], arima_df = []\<rparr> ''arima'' ''ml'' [''bf'']
           (2025, 1, 10) (2025, 1, 3))
      = Inr (0, 0, 0, 0)"
  using empty_selection_summary [of "[''bf'']" "(2025, 1, 10)" "(2025, 1, 3)"
      "\<lparr>latam_df = [\<lparr>date = (2025, 1, 5), failure_pct = 7\<rparr>], ml_df = [], arima_df = []\<rparr>"
      "''arima''" "''ml''"]
  by (auto simp add: range_filter_def ge_date_def le_date_def mask_and_def getitem_mask_def)

section \<open>Anomaly overlay\<close>

text \<open>
  C5. The callback always returns a figure. With \<^verbatim>\<open>anomaly_method = 'ml'\<close> the figure has
  exactly one anomaly trace (the trace named \<^verbatim>\<open>ML Anomalies\<close>), and its points are exactly
  the rows of the anomaly dataset whose flag is true and whose date lies within
  \<open>[start_date, end_date]\<close>, in order, each with its date and its own \<^verbatim>\<open>failure_pct\<close>.
  With any other \<^verbatim>\<open>anomaly_method\<close>, \<^verbatim>\<open>'none'\<close> included, the figure has no anomaly trace,
  whatever the flags of the dataset.
\<close>

theorem anomaly_overlay_selector:
  "\<exists>fig sm. update_graph store forecast_choice anomaly_method event_toggle start_date end_date
       = Inr (fig, sm)
     \<and> (anomaly_method = ''ml'' \<longrightarrow>
          (\<exists>t. filter (\<lambda>t. name t = Some ''ML Anomalies'') (data fig) = [t]
             \<and> zip (xdata t) (ydata t)
                 = map (\<lambda>r. (date r, failure_pct r))
                     (filter (\<lambda>r. ml_anomaly r \<and> start_date \<le> date r \<and> date r \<le> end_date)
                        (ml_df store))
             \<and> length (xdata t) = length (ydata t)))
     \<and> (anomaly_method \<noteq> ''ml'' \<longrightarrow>
          filter (\<lambda>t. name t = Some ''ML Anomalies'') (data fig) = [])"
proof -
  obtain sm where ug: "update_graph store forecast_choice anomaly_method event_toggle
      start_date end_date =
     Inr (\<lparr>data =
             [observed_trace (black_friday_spike event_toggle
                (range_filter (latam_df store) start_date end_date))]
             @ (if anomaly_method = ''ml''
                then [anomaly_trace (ml_anomalies_of (ml_df store) start_date end_date)] else [])
             @ (if forecast_choice = ''arima''
                then [forecast_trace (range_filter (arima_df store) start_date end_date),
                      upper_trace (range_filter (arima_df store) start_date end_date),
                      lower_trace (range_filter (arima_df store) start_date end_date)] else []),
           layout = layout (update_layout go_Figure)\<rparr>, sm)"
    using update_graph_Inr by blast
  have xy: "zip (xdata (anomaly_trace ml)) (ydata (anomaly_trace ml))
              = map (\<lambda>r. (date r, failure_pct r)) ml
            \<and> length (xdata (anomaly_trace ml)) = length (ydata (anomaly_trace ml))" for ml
    by (simp add: anomaly_trace_def zip_map_map) (induction ml, simp_all)
  show ?thesis
    unfolding ug using xy [of "ml_anomalies_of (ml_df store) start_date end_date"]
    by (simp add: trace_names ml_anomalies_of_eq_filter)
qed

theorem anomaly_overlay_selector_witness:
  "map_sum id (\<lambda>(fig, sm). map (\<lambda>t. zip (xdata t) (ydata t))
                 (filter (\<lambda>t. name t = Some ''ML Anomalies'') (data fig)))
     (update_graph
        \<lparr>latam_df = [\<lparr>date = (2025, 1, 12), failure_pct = 2\<rparr>],
         ml_df = [\<lparr>date = (2025, 1, 5), failure_pct = 8, ml_anomaly = True\<rparr>,
                  \<lparr>date = (2025, 1, 11), failure_pct = 2, ml_anomaly = False\<rparr>,
                  \<lparr>date = (2025, 1, 12), failure_pct = 9, ml_anomaly = True\<rparr>],
         arima_df = []\<rparr>
        ''none'' ''ml'' [] (2025, 1, 10) (2025, 1, 20))
   = Inr [[((2025, 1, 12), 9)]]
   \<and> map_sum id (\<lambda>(fig, sm). filter (\<lambda>t. name t = Some ''ML Anomalies'') (data fig))
     (update_graph
        \<lparr>latam_df = [\<lparr>date = (2025, 1, 12), failure_pct = 2\<rparr>],
         ml_df = [\<lparr>date = (2025, 1, 5), failure_pct = 8, ml_anomaly = True\<rparr>,
                  \<lparr>date = (2025, 1, 11), failure_pct = 2, ml_anomaly = False\<rparr>,
                  \<lparr>date = (2025, 1, 12), failure_pct = 9, ml_anomaly = True\<rparr>],
         arima_df = []\<rparr>
        ''none'' ''none'' [] (2025, 1, 10) (2025, 1, 20))
   = Inr []"
  using anomaly_overlay_selector [of
        "\<lparr>latam_df = [\<lparr>date = (2025, 1, 12), failure_pct = 2\<rparr>],
         ml_df = [\<lparr>date = (2025, 1, 5), failure_pct = 8, ml_anomaly = True\<rparr>,
                  \<lparr>date = (2025, 1, 11), failure_pct = 2, ml_anomaly = False\<rparr>,
                  \<lparr>date = (2025, 1, 12), failure_pct = 9, ml_anomaly = True\<rparr>],
         arima_df = []\<rparr>" "''none''" "''ml''" "[]" "(2025, 1, 10)" "(2025, 1, 20)"]
  by (simp add: callback_defs)

section \<open>Forecast overlay\<close>

text \<open>
  C6. With \<^verbatim>\<open>forecast_choice = 'arima'\<close> the traces of the figure are the observed trace,
  the anomaly trace if selected, and then exactly three forecast traces built from the
  forecast rows within \<open>[start_date, end_date]\<close>: the central forecast line, then the
  upper bound, then the lower bound, which alone carries the fill directive
  \<^verbatim>\<open>tonexty\<close>; the upper bound comes directly before the lower bound. With any other
  \<^verbatim>\<open>forecast_choice\<close>, \<^verbatim>\<open>'none'\<close> included, the figure has no forecast trace.
\<close>

theorem forecast_overlay_selector:
  "\<exists>fig sm. update_graph store forecast_choice anomaly_method event_toggle start_date end_date
       = Inr (fig, sm)
     \<and> (forecast_choice = ''arima'' \<longrightarrow>
          (\<exists>c u l.
             data fig =
               observed_trace (black_friday_spike event_toggle
                 (range_filter (latam_df store) start_date end_date))
               # (if anomaly_method = ''ml''
                  then [anomaly_trace (ml_anomalies_of (ml_df store) start_date end_date)]
                  else [])
               @ [c, u, l]
             \<and> xdata c = map date (filter (\<lambda>r. start_date \<le> date r \<and> date r \<le> end_date)
                                      (arima_df store))
             \<and> ydata c = map forecast (filter (\<lambda>r. start_date \<le> date r \<and> date r \<le> end_date)
                                          (arima_df store))
             \<and> fill c = None
             \<and> xdata u = xdata c
             \<and> ydata u = map upper (filter (\<lambda>r. start_date \<le> date r \<and> date r \<le> end_date)
                                       (arima_df store))
             \<and> fill u = None
             \<and> xdata l = xdata c
             \<and> ydata l = map lower (filter (\<lambda>r. start_date \<le> date r \<and> date r \<le> end_date)
                                       (arima_df store))
             \<and> fill l = Some ''tonexty''))
     \<and> (forecast_choice \<noteq> ''arima'' \<longrightarrow>
          data fig =
            observed_trace (black_friday_spike event_toggle
              (range_filter (latam_df store) start_date end_date))
            # (if anomaly_method = ''ml''
               then [anomaly_trace (ml_anomalies_of (ml_df store) start_date end_date)]
               else []))"
proof -
  obtain sm where ug: "update_graph store forecast_choice anomaly_method event_toggle
      start_date end_date =
     Inr (\<lparr>data =
             [observed_trace (black_friday_spike event_toggle
                (range_filter (latam_df store) start_date end_date))]
             @ (if anomaly_method = ''ml''
                then [anomaly_trace (ml_anomalies_of (ml_df store) start_date end_date)] else [])
             @ (if forecast_choice = ''arima''
                then [forecast_trace (range_filter (arima_df store) start_date end_date),
                      upper_trace (range_filter (arima_df store) start_date end_date),
                      lower_trace (range_filter (arima_df store) start_date end_date)] else []),
           layout = layout (update_layout go_Figure)\<rparr>, sm)"
    using update_graph_Inr by blast
  show ?thesis
    unfolding ug
    by (simp add: forecast_trace_def upper_trace_def lower_trace_def range_filter_eq_filter)
qed

theorem forecast_overlay_selector_witness:
  "map_sum id (\<lambda>(fig, sm). map (\<lambda>t. (ydata t, fill t)) (data fig))
     (update_graph
        \<lparr>latam_df = [\<lparr>date = (2025, 1, 12), failure_pct = 2\<rparr>],
         ml_df = [],
         arima_df = [\<lparr>date = (2025, 1, 9), forecast = 2, upper = 3, lower = 1\<rparr>,
                     \<lparr>date = (2025, 1, 12), forecast = 2.5, upper = 4, lower = 1.5\<rparr>]\<rparr>
        ''arima'' ''none'' [] (2025, 1, 10) (2025, 1, 20))
   = Inr [([2], None), ([2.5], None), ([4], None), ([1.5], Some ''tonexty'')]
   \<and> map_sum id (\<lambda>(fig, sm). map (\<lambda>t. (ydata t, fill t)) (data fig))
     (update_graph
        \<lparr>latam_df = [\<lparr>date = (2025, 1, 12), failure_pct = 2\<rparr>],
         ml_df = [],
         arima_df = [\<lparr>date = (2025, 1, 9), forecast = 2, upper = 3, lower = 1\<rparr>,
                     \<lparr>date = (2025, 1, 12), forecast = 2.5, upper = 4, lower = 1.5\<rparr>]\<rparr>
        ''none'' ''none'' [] (2025, 1, 10) (2025, 1, 20))
   = Inr [([2], None)]"
  using forecast_overlay_selector [of
        "\<lparr>latam_df = [\<lparr>date = (2025, 1, 12), failure_pct = 2\<rparr>],
         ml_df = [],
         arima_df = [\<lparr>date = (2025, 1, 9), forecast = 2, upper = 3, lower = 1\<rparr>,
                     \<lparr>date = (2025, 1, 12), forecast = 2.5, upper = 4, lower = 1.5\<rparr>]\<rparr>"
        "''arima''" "''none''" "[]" "(2025, 1, 10)" "(2025, 1, 20)"]
  by (simp add: callback_defs)

section \<open>The January 2025 scenario\<close>

text \<open>
  C7. The observed series has one row per day from 2025-01-01 to 2025-01-31, each with
  \<^verbatim>\<open>failure_pct = 2.0\<close>, and the whole month is selected (the other two datasets and the
  overlay choices are arbitrary). Spike disabled: \<open>n = 31\<close>, \<open>k = 0\<close>, share 0, revenue 0,
  and the deployment/gateway root-cause line. Spike enabled: the four days 25-28 January
  are plotted at 5.0 and the others at 2.0, \<open>k = 4\<close>, the share is \<open>4 / 31 * 100\<close>, which
  lies in \<open>[12.85, 12.95)\<close> and so reads 12.9 to one decimal, the revenue is 22800, and the
  root-cause line is the spike-simulated one.
\<close>

theorem scenario_january_2025:
  "(\<exists>fig sm.
      update_graph
        \<lparr>latam_df = map (\<lambda>d. \<lparr>date = (2025, 1, d), failure_pct = 2.0\<rparr>) [1..<32],
         ml_df = mldf, arima_df = arimadf\<rparr>
        forecast_choice anomaly_method [] (2025, 1, 1) (2025, 1, 31) = Inr (fig, sm)
      \<and> total_records sm = 31 \<and> high_failure_days sm = 0 \<and> high_failure_pct sm = 0
      \<and> missed_revenue sm = 0 \<and> root_cause sm = root_cause_injected)
   \<and> (\<exists>fig sm.
      update_graph
        \<lparr>latam_df = map (\<lambda>d. \<lparr>date = (2025, 1, d), failure_pct = 2.0\<rparr>) [1..<32],
         ml_df = mldf, arima_df = arimadf\<rparr>
        forecast_choice anomaly_method [''bf''] (2025, 1, 1) (2025, 1, 31) = Inr (fig, sm)
      \<and> zip (xdata (hd (data fig))) (ydata (hd (data fig)))
          = map (\<lambda>d. ((2025, 1, d), if 25 \<le> d \<and> d \<le> 28 then 5.0 else 2.0)) [1..<32]
      \<and> total_records sm = 31 \<and> high_failure_days sm = 4
      \<and> high_failure_pct sm = 4 / 31 * 100
      \<and> 12.85 \<le> high_failure_pct sm \<and> high_failure_pct sm < 12.95
      \<and> missed_revenue sm = 22800 \<and> root_cause sm = root_cause_spike)"
  by (simp add: update_graph_eq impact_summary_eq black_friday_spike_map range_filter_eq_filter
        observed_trace_def upt_rec)


theorem scenario_january_2025_witness:
  "map_sum id (\<lambda>(fig, sm). (total_records sm, high_failure_days sm, high_failure_pct sm,
                             missed_revenue sm, root_cause sm))
     (update_graph
        \<lparr>latam_df = map (\<lambda>d. \<lparr>date = (2025, 1, d), failure_pct = 2.0\<rparr>) [1..<32],
         ml_df = [], arima_df = []\<rparr>
        ''arima'' ''ml'' [] (2025, 1, 1) (2025, 1, 31))
   = Inr (31, 0, 0, 0,
          [CHR 0xE2, CHR 0x80, CHR 0xA2]
            @ '' Root cause: Deployment A41 + Gateway v3-latam-02 (injected)'')
   \<and> map_sum id (\<lambda>(fig, sm). (total_records sm, high_failure_days sm, high_failure_pct sm,
                             missed_revenue sm, root_cause sm))
     (update_graph
        \<lparr>latam_df = map (\<lambda>d. \<lparr>date = (2025, 1, d), failure_pct = 2.0\<rparr>) [1..<32],
         ml_df = [], arima_df = []\<rparr>
        ''arima'' ''ml'' [''bf''] (2025, 1, 1) (2025, 1, 31))
   = Inr (31, 4, 400 / 31, 22800,
          [CHR 0xE2, CHR 0x80, CHR 0xA2] @ '' Spike simulated due to Black Friday'')"
  using scenario_january_2025 [of "[]" "[]" "''arima''" "''ml''"]
  by (auto simp add: root_cause_injected_def root_cause_spike_def bullet_def)

section \<open>The loaded datasets are never mutated\<close>

text \<open>
  C8. In a store that holds the three loaded datasets under the module-level names, a
  call of the callback returns what the callback computes from the contents of the three
  datasets, leaves every object that existed before the call as it was (so none of the
  three datasets is mutated: the spike multiplies a frame created by the call itself), and
  ends in a store that again holds the same three datasets. Hence a following call, with
  any arguments and in particular with the spike enabled again, computes its result from
  the original stored values: the spike does not accumulate from call to call. Since the
  condition on the store is re-established by each call, this extends to any number of
  calls.
\<close>

theorem data_store_never_mutated:
  assumes "loaded s store"
  shows "\<exists>s1 s2.
           update_graph_st forecast_choice anomaly_method event_toggle start_date end_date s
             = Some (update_graph store forecast_choice anomaly_method event_toggle
                       start_date end_date, s1)
           \<and> loaded s1 store
           \<and> (\<forall>a < next_addr s. objs s1 a = objs s a)
           \<and> latam_ref s1 = latam_ref s \<and> ml_ref s1 = ml_ref s \<and> arima_ref s1 = arima_ref s
           \<and> update_graph_st forecast_choice' anomaly_method' event_toggle' start_date'
                 end_date' s1
             = Some (update_graph store forecast_choice' anomaly_method' event_toggle'
                       start_date' end_date', s2)
           \<and> loaded s2 store
           \<and> (\<forall>a < next_addr s. objs s2 a = objs s a)"
proof -
  obtain s1 where 1:
    "update_graph_st forecast_choice anomaly_method event_toggle start_date end_date s
       = Some (update_graph store forecast_choice anomaly_method event_toggle
                 start_date end_date, s1)"
    "loaded s1 store" "\<forall>a < next_addr s. objs s1 a = objs s a"
    "latam_ref s1 = latam_ref s" "ml_ref s1 = ml_ref s" "arima_ref s1 = arima_ref s"
    "next_addr s \<le> next_addr s1"
    using update_graph_st_loaded [OF assms] by blast
  obtain s2 where 2:
    "update_graph_st forecast_choice' anomaly_method' event_toggle' start_date' end_date' s1
       = Some (update_graph store forecast_choice' anomaly_method' event_toggle'
                 start_date' end_date', s2)"
    "loaded s2 store" "\<forall>a < next_addr s1. objs s2 a = objs s1 a"
    using update_graph_st_loaded [OF 1(2)] by blast
  have "\<forall>a < next_addr s. objs s2 a = objs s a"
    using 1(3) 1(7) 2(3) by auto
  with 1 2 show ?thesis
    by blast
qed

theorem data_store_never_mutated_witness:
  "loaded \<lparr>objs = [0 \<mapsto> LatamFrame [\<lparr>date = (2025, 1, 26), failure_pct = 2\<rparr>],
                   1 \<mapsto> MlFrame [], 2 \<mapsto> ArimaFrame []],
           next_addr = 3, latam_ref = 0, ml_ref = 1, arima_ref = 2\<rparr>
          \<lparr>latam_df = [\<lparr>date = (2025, 1, 26), failure_pct = 2\<rparr>], ml_df = [], arima_df = []\<rparr>
   \<and> map_option
       (\<lambda>(r, s1).
          (map_sum id (\<lambda>(fig, sm). map ydata (data fig)) r,
           objs s1 0,
           map_option (\<lambda>(r, s2). (map_sum id (\<lambda>(fig, sm). map ydata (data fig)) r, objs s2 0))
             (update_graph_st ''none'' ''none'' [''bf''] (2025, 1, 1) (2025, 1, 31) s1)))
       (update_graph_st ''none'' ''none'' [''bf''] (2025, 1, 1) (2025, 1, 31)
          \<lparr>objs = [0 \<mapsto> LatamFrame [\<lparr>date = (2025, 1, 26), failure_pct = 2\<rparr>],
                   1 \<mapsto> MlFrame [], 2 \<mapsto> ArimaFrame []],
           next_addr = 3, latam_ref = 0, ml_ref = 1, arima_ref = 2\<rparr>)
     = Some (Inr [[5]], Some (LatamFrame [\<lparr>date = (2025, 1, 26), failure_pct = 2\<rparr>]),
             Some (Inr [[5]], Some (LatamFrame [\<lparr>date = (2025, 1, 26), failure_pct = 2\<rparr>])))"
proof -
  have h: "loaded \<lparr>objs = [0 \<mapsto> LatamFrame [\<lparr>date = (2025, 1, 26), failure_pct = 2\<rparr>],
                   1 \<mapsto> MlFrame [], 2 \<mapsto> ArimaFrame []],
           next_addr = 3, latam_ref = 0, ml_ref = 1, arima_ref = 2\<rparr>
          \<lparr>latam_df = [\<lparr>date = (2025, 1, 26), failure_pct = 2\<rparr>], ml_df = [], arima_df = []\<rparr>"
    by (simp add: loaded_def latam_rows_def ml_rows_def arima_rows_def)
  show ?thesis
    using h data_store_never_mutated [OF h, of "''none''" "''none''" "[''bf'']"
        "(2025, 1, 1)" "(2025, 1, 31)" "''none''" "''none''" "[''bf'']"
        "(2025, 1, 1)" "(2025, 1, 31)"]
    by (auto simp add: update_graph_eq impact_summary_eq black_friday_spike_map
        range_filter_eq_filter observed_trace_def)
qed

section \<open>What the summary and the anomaly overlay do not depend on\<close>

text \<open>
  C9. For a fixed data store, date range and spike selection, the outcome of the callback
  restricted to the summary (record count, high-failure count, share, revenue figure,
  root-cause line and the echoed range) is the same for all values of
  \<^verbatim>\<open>forecast_choice\<close> and \<^verbatim>\<open>anomaly_method\<close>.
\<close>

theorem summary_ignores_overlay_choices:
  "map_sum id snd (update_graph store forecast_choice anomaly_method event_toggle
                     start_date end_date)
   = map_sum id snd (update_graph store forecast_choice' anomaly_method' event_toggle
                       start_date end_date)"
  by (simp add: update_graph_eq impact_summary_eq)

theorem summary_ignores_overlay_choices_witness:
  "map_sum id snd
     (update_graph
        \<lparr>latam_df = [\<lparr>date = (2025, 1, 26), failure_pct = 2\<rparr>],
         ml_df = [\<lparr>date = (2025, 1, 26), failure_pct = 2, ml_anomaly = True\<rparr>],
         arima_df = [\<lparr>date = (2025, 1, 26), forecast = 2, upper = 3, lower = 1\<rparr>]\<rparr>
        ''arima'' ''ml'' [''bf''] (2025, 1, 1) (2025, 1, 31))
   = map_sum id snd
     (update_graph
        \<lparr>latam_df = [\<lparr>date = (2025, 1, 26), failure_pct = 2\<rparr>],
         ml_df = [\<lparr>date = (2025, 1, 26), failure_pct = 2, ml_anomaly = True\<rparr>],
         arima_df = [\<lparr>date = (2025, 1, 26), forecast = 2, upper = 3, lower = 1\<rparr>]\<rparr>
        ''none'' ''none'' [''bf''] (2025, 1, 1) (2025, 1, 31))
   \<and> map_sum id (\<lambda>(fig, sm). length (data fig))
     (update_graph
        \<lparr>latam_df = [\<lparr>date = (2025, 1, 26), failure_pct = 2\<rparr>],
         ml_df = [\<lparr>date = (2025, 1, 26), failure_pct = 2, ml_anomaly = True\<rparr>],
         arima_df = [\<lparr>date = (2025, 1, 26), forecast = 2, upper = 3, lower = 1\<rparr>]\<rparr>
        ''arima'' ''ml'' [''bf''] (2025, 1, 1) (2025, 1, 31)) = Inr 5
   \<and> map_sum id (\<lambda>(fig, sm). length (data fig))
     (update_graph
        \<lparr>latam_df = [\<lparr>date = (2025, 1, 26), failure_pct = 2\<rparr>],
         ml_df = [\<lparr>date = (2025, 1, 26), failure_pct = 2, ml_anomaly = True\<rparr>],
         arima_df = [\<lparr>date = (2025, 1, 26), forecast = 2, upper = 3, lower = 1\<rparr>]\<rparr>
        ''none'' ''none'' [''bf''] (2025, 1, 1) (2025, 1, 31)) = Inr 1"
  using summary_ignores_overlay_choices [of
        "\<lparr>latam_df = [\<lparr>date = (2025, 1, 26), failure_pct = 2\<rparr>],
         ml_df = [\<lparr>date = (2025, 1, 26), failure_pct = 2, ml_anomaly = True\<rparr>],
         arima_df = [\<lparr>date = (2025, 1, 26), forecast = 2, upper = 3, lower = 1\<rparr>]\<rparr>"
        "''arima''" "''ml''" "[''bf'']" "(2025, 1, 1)" "(2025, 1, 31)" "''none''" "''none''"]
  by (simp add: callback_defs)

text \<open>
  C10. For a fixed data store, date range and overlay choices, two calls that differ only
  in the spike selection produce the same anomaly overlay (indeed the same traces after
  the observed one); with \<^verbatim>\<open>anomaly_method = 'ml'\<close> the dates and y-values of the overlay
  are the \<^verbatim>\<open>date\<close> and \<^verbatim>\<open>failure_pct\<close> columns of the flagged in-range rows of the
  anomaly dataset itself, also for dates inside the spike window.
\<close>

theorem anomaly_overlay_ignores_spike:
  "\<exists>fig sm fig' sm'.
     update_graph store forecast_choice anomaly_method event_toggle start_date end_date
       = Inr (fig, sm)
     \<and> update_graph store forecast_choice anomaly_method event_toggle' start_date end_date
       = Inr (fig', sm')
     \<and> filter (\<lambda>t. name t = Some ''ML Anomalies'') (data fig)
       = filter (\<lambda>t. name t = Some ''ML Anomalies'') (data fig')
     \<and> tl (data fig) = tl (data fig')
     \<and> (anomaly_method = ''ml'' \<longrightarrow>
          (\<exists>t. filter (\<lambda>t. name t = Some ''ML Anomalies'') (data fig) = [t]
             \<and> xdata t = map date
                 (filter (\<lambda>r. ml_anomaly r \<and> start_date \<le> date r \<and> date r \<le> end_date)
                    (ml_df store))
             \<and> ydata t = map failure_pct
                 (filter (\<lambda>r. ml_anomaly r \<and> start_date \<le> date r \<and> date r \<le> end_date)
                    (ml_df store))))"
  by (simp add: update_graph_eq impact_summary_eq trace_names ml_anomalies_of_eq_filter
      anomaly_trace_def)

theorem anomaly_overlay_ignores_spike_witness:
  "map_sum id (\<lambda>(fig, sm). map (\<lambda>t. (name t, ydata t)) (data fig))
     (update_graph
        \<lparr>latam_df = [\<lparr>date = (2025, 1, 26), failure_pct = 2\<rparr>],
         ml_df = [\<lparr>date = (2025, 1, 26), failure_pct = 2, ml_anomaly = True\<rparr>],
         arima_df = []\<rparr>
        ''none'' ''ml'' [''bf''] (2025, 1, 1) (2025, 1, 31))
   = Inr [(Some ''Failure %'', [5]), (Some ''ML Anomalies'', [2])]
   \<and> map_sum id (\<lambda>(fig, sm). map (\<lambda>t. (name t, ydata t)) (data fig))
     (update_graph
        \<lparr>latam_df = [\<lparr>date = (2025, 1, 26), failure_pct = 2\<rparr>],
         ml_df = [\<lparr>date = (2025, 1, 26), failure_pct = 2, ml_anomaly = True\<rparr>],
         arima_df = []\<rparr>
        ''none'' ''ml'' [] (2025, 1, 1) (2025, 1, 31))
   = Inr [(Some ''Failure %'', [2]), (Some ''ML Anomalies'', [2])]"
  using anomaly_overlay_ignores_spike [of
        "\<lparr>latam_df = [\<lparr>date = (2025, 1, 26), failure_pct = 2\<rparr>],
         ml_df = [\<lparr>date = (2025, 1, 26), failure_pct = 2, ml_anomaly = True\<rparr>],
         arima_df = []\<rparr>" "''none''" "''ml''" "[''bf'']" "(2025, 1, 1)" "(2025, 1, 31)" "[]"]
  by (simp add: callback_defs)

end
